theory Spec2Isabelle
  imports Complex_Main
begin

section \<open>Text primitives of the host language\<close>

text \<open>
  The analyser of \<^verbatim>\<open>src/services/nlp_analyzer.py\<close> works on Python strings with
  \<^verbatim>\<open>str.lower\<close>, \<^verbatim>\<open>str.split\<close>, \<^verbatim>\<open>re.findall\<close> and \<^verbatim>\<open>collections.Counter\<close>.
  A text is a list of characters; the 256 values of \<^typ>\<open>char\<close> stand for the code
  points U+0000 to U+00FF, and the character classes below are Python's own on that
  range. Python floats are idealised as real numbers. Operations that raise in Python
  (division by zero, logarithm of a non-positive number) return an error value.
\<close>

datatype py_error = ZeroDivisionError | ValueError

definition truediv :: "real \<Rightarrow> real \<Rightarrow> py_error + real" where
  "truediv a b = (if b = 0 then Inl ZeroDivisionError else Inr (a / b))"

definition log2 :: "real \<Rightarrow> py_error + real" where
  "log2 x = (if x > 0 then Inr (log 2 x) else Inl ValueError)"

definition code_point :: "char \<Rightarrow> nat" where
  "code_point c = of_char c"

definition isspace :: "char \<Rightarrow> bool" where
  \<comment> \<open>\<^verbatim>\<open>str.isspace\<close>: TAB..CR, FS..US, SPACE, NEL, NBSP\<close>
  "isspace c =
     (let n = code_point c
      in (9 \<le> n \<and> n \<le> 13) \<or> (28 \<le> n \<and> n \<le> 32) \<or> n = 133 \<or> n = 160)"

definition lower_char :: "char \<Rightarrow> char" where
  \<comment> \<open>A..Z and the upper-case letters U+00C0..U+00DE (without the sign U+00D7)\<close>
  "lower_char c =
     (let n = code_point c
      in if (65 \<le> n \<and> n \<le> 90) \<or> (192 \<le> n \<and> n \<le> 222 \<and> n \<noteq> 215)
         then char_of (n + 32) else c)"

definition str_lower :: "string \<Rightarrow> string" where
  "str_lower text = map lower_char text"

definition is_ascii_alpha :: "char \<Rightarrow> bool" where
  \<comment> \<open>the character class \<^verbatim>\<open>[a-zA-Z]\<close>\<close>
  "is_ascii_alpha c =
     (let n = code_point c in (97 \<le> n \<and> n \<le> 122) \<or> (65 \<le> n \<and> n \<le> 90))"

definition is_word_char :: "char \<Rightarrow> bool" where
  \<comment> \<open>the class \<^verbatim>\<open>\w\<close> of a str pattern: alphanumeric characters and the underscore\<close>
  "is_word_char c =
     (let n = code_point c
      in (48 \<le> n \<and> n \<le> 57) \<or> (65 \<le> n \<and> n \<le> 90) \<or> n = 95 \<or> (97 \<le> n \<and> n \<le> 122)
         \<or> n = 170 \<or> n = 178 \<or> n = 179 \<or> n = 181 \<or> n = 185 \<or> n = 186
         \<or> (188 \<le> n \<and> n \<le> 190) \<or> (192 \<le> n \<and> n \<le> 214) \<or> (216 \<le> n \<and> n \<le> 246)
         \<or> 248 \<le> n)"

text \<open>
  The maximal runs of characters of a class, in the order of the text. \<^verbatim>\<open>text.split()\<close>
  gives the maximal runs of characters that are not whitespace.
\<close>

fun runs_acc :: "(char \<Rightarrow> bool) \<Rightarrow> string \<Rightarrow> string \<Rightarrow> string list" where
  "runs_acc P cur [] = (if cur = [] then [] else [cur])"
| "runs_acc P cur (c # cs) =
     (if P c then runs_acc P (cur @ [c]) cs
      else if cur = [] then runs_acc P [] cs
      else cur # runs_acc P [] cs)"

definition maximal_runs :: "(char \<Rightarrow> bool) \<Rightarrow> string \<Rightarrow> string list" where
  "maximal_runs P text = runs_acc P [] text"

definition str_split :: "string \<Rightarrow> string list" where
  "str_split text = maximal_runs (\<lambda>c. \<not> isspace c) text"

text \<open>\<^verbatim>\<open>text.split(sep)\<close> for a separator of one character: never an empty list.\<close>

fun split_on_acc :: "char \<Rightarrow> string \<Rightarrow> string \<Rightarrow> string list" where
  "split_on_acc sep cur [] = [cur]"
| "split_on_acc sep cur (c # cs) =
     (if c = sep then cur # split_on_acc sep [] cs else split_on_acc sep (cur @ [c]) cs)"

definition str_split_on :: "char \<Rightarrow> string \<Rightarrow> string list" where
  "str_split_on sep text = split_on_acc sep [] text"

text \<open>\<^verbatim>\<open>' '.join(words)\<close>\<close>

fun join_space :: "string list \<Rightarrow> string" where
  "join_space [] = []"
| "join_space [w] = w"
| "join_space (w # ws) = w @ CHR '' '' # join_space ws"

text \<open>
  \<^verbatim>\<open>Counter(xs)\<close>: a dictionary in insertion order, each distinct element with the
  number of its occurrences.
\<close>

fun counter_add :: "'a \<Rightarrow> ('a \<times> nat) list \<Rightarrow> ('a \<times> nat) list" where
  "counter_add x [] = [(x, 1)]"
| "counter_add x ((k, c) # kcs) =
     (if k = x then (k, Suc c) # kcs else (k, c) # counter_add x kcs)"

definition Counter :: "'a list \<Rightarrow> ('a \<times> nat) list" where
  "Counter xs = foldl (\<lambda>counts x. counter_add x counts) [] xs"

text \<open>The count a counter holds for a key, 0 for a key it does not hold.\<close>

definition cnt :: "('a \<times> nat) list \<Rightarrow> 'a \<Rightarrow> nat" where
  "cnt m k = (case map_of m k of None \<Rightarrow> 0 | Some c \<Rightarrow> c)"

subsection \<open>The pattern of the keyword extractor\<close>

text \<open>
  \<^verbatim>\<open>re.findall(r'\b[a-zA-Z]{n,}\b', s)\<close>. \<^verbatim>\<open>\b\<close> holds between two positions when
  exactly one of the neighbouring characters is a word character (the ends of the text
  count as non-word). At a position the engine takes the longest run of letters and
  gives characters back one at a time, down to \<open>n\<close>, until \<^verbatim>\<open>\b\<close> holds behind it.
  The search resumes behind a match; behind an empty match (possible for \<open>n = 0\<close>
  only) it resumes one character further, since every longer candidate at that position
  has already failed.
\<close>

definition is_word_opt :: "char option \<Rightarrow> bool" where
  "is_word_opt p = (case p of None \<Rightarrow> False | Some c \<Rightarrow> is_word_char c)"

definition at_boundary :: "char option \<Rightarrow> string \<Rightarrow> bool" where
  "at_boundary prev rest =
     (is_word_opt prev \<noteq> (case rest of [] \<Rightarrow> False | c # _ \<Rightarrow> is_word_char c))"


definition re_match :: "nat \<Rightarrow> char option \<Rightarrow> string \<Rightarrow> nat option" where
  "re_match n prev s =
     (if at_boundary prev s then
        (let k = length (takeWhile is_ascii_alpha s)
         in find (\<lambda>j. at_boundary (if j = 0 then prev else Some (s ! (j - 1))) (drop j s))
              (rev [n..<Suc k]))
      else None)"

fun re_findall_from :: "nat \<Rightarrow> char option \<Rightarrow> string \<Rightarrow> string list" where
  "re_findall_from n prev [] = (if re_match n prev [] = Some 0 then [[]] else [])"
| "re_findall_from n prev (c # cs) =
     (case re_match n prev (c # cs) of
        None \<Rightarrow> re_findall_from n (Some c) cs
      | Some 0 \<Rightarrow> [] # re_findall_from n (Some c) cs
      | Some (Suc k) \<Rightarrow>
          take (Suc k) (c # cs)
            # re_findall_from n (Some (last (take (Suc k) (c # cs)))) (drop k cs))"

definition re_findall :: "nat \<Rightarrow> string \<Rightarrow> string list" where
  "re_findall n s = re_findall_from n None s"

section \<open>The analyser\<close>

record NLPAnalyzer =
  stop_words :: "string set"

definition NLPAnalyzer_init :: NLPAnalyzer where
  "NLPAnalyzer_init = \<lparr> stop_words = set
     [''a'', ''an'', ''and'', ''are'', ''as'', ''at'', ''be'', ''by'', ''for'', ''from'',
      ''has'', ''he'', ''in'', ''is'', ''it'', ''its'', ''of'', ''on'', ''that'', ''the'',
      ''to'', ''was'', ''will'', ''with'', ''i'', ''you'', ''we'', ''they'', ''this'',
      ''but'', ''or'', ''not'', ''have'', ''had'', ''what'', ''when'', ''where'', ''who'',
      ''which'', ''why'', ''how'', ''all'', ''any'', ''both'', ''each'', ''few'', ''more'',
      ''most'', ''other'', ''some'', ''such'', ''no'', ''nor'', ''only'', ''own'', ''same'',
      ''so'', ''than'', ''too'', ''very'', ''can'', ''could'', ''should'', ''would''] \<rparr>"

text \<open>
  \<^verbatim>\<open>extract_keywords\<close>. Python's \<^verbatim>\<open>list(set(keywords))\<close> has the distinct keywords in
  an order the language leaves open; the model lists them by first occurrence, and
  the properties below speak about the elements only.
\<close>

definition extract_keywords :: "NLPAnalyzer \<Rightarrow> string \<Rightarrow> nat \<Rightarrow> string list" where
  "extract_keywords self text min_length =
     (let words = re_findall min_length (str_lower text);
          keywords = filter (\<lambda>word. word \<notin> stop_words self) words
      in remdups keywords)"

text \<open>
  \<^verbatim>\<open>calculate_keyword_density\<close>: the loop over \<^verbatim>\<open>keyword_counts.items()\<close> fills
  the dictionary \<^verbatim>\<open>densities\<close>.
\<close>

fun densities_loop ::
  "(string \<times> nat) list \<Rightarrow> nat \<Rightarrow> (string \<rightharpoonup> real) \<Rightarrow> py_error + (string \<rightharpoonup> real)" where
  "densities_loop [] total_words densities = Inr densities"
| "densities_loop ((keyword, count) # items) total_words densities =
     (case truediv (real count) (real total_words) of
        Inl e \<Rightarrow> Inl e
      | Inr d \<Rightarrow> densities_loop items total_words (densities(keyword \<mapsto> d)))"

definition calculate_keyword_density ::
  "NLPAnalyzer \<Rightarrow> string \<Rightarrow> py_error + (string \<rightharpoonup> real)" where
  "calculate_keyword_density self text =
     (let keywords = extract_keywords self text 3;
          total_words = length (str_split text)
      in if total_words = 0 then Inr Map.empty
         else densities_loop (Counter keywords) total_words Map.empty)"

definition calculate_repetition_score :: "NLPAnalyzer \<Rightarrow> string \<Rightarrow> py_error + real" where
  "calculate_repetition_score self text =
     (let words = str_split (str_lower text)
      in if length words \<le> 1 then Inr 0
         else
           (let word_counts = Counter words;
                unique_words = length word_counts;
                total_words = length words
            in case truediv (real unique_words) (real total_words) of
                 Inl e \<Rightarrow> Inl e
               | Inr q \<Rightarrow> Inr (min (1 - q) 1)))"

text \<open>\<^verbatim>\<open>calculate_entropy\<close>: the loop over \<^verbatim>\<open>char_counts.values()\<close>.\<close>

fun entropy_loop :: "nat list \<Rightarrow> nat \<Rightarrow> real \<Rightarrow> py_error + real" where
  "entropy_loop [] total_chars entropy = Inr entropy"
| "entropy_loop (count # counts) total_chars entropy =
     (case truediv (real count) (real total_chars) of
        Inl e \<Rightarrow> Inl e
      | Inr probability \<Rightarrow>
          if probability > 0 then
            (case log2 probability of
               Inl e \<Rightarrow> Inl e
             | Inr l \<Rightarrow> entropy_loop counts total_chars (entropy - probability * l))
          else entropy_loop counts total_chars entropy)"

definition calculate_entropy :: "NLPAnalyzer \<Rightarrow> string \<Rightarrow> py_error + real" where
  "calculate_entropy self text =
     (if text = [] then Inr 0
      else
        (let char_counts = Counter (str_lower text);
             total_chars = length text
         in entropy_loop (map snd char_counts) total_chars 0))"

text \<open>\<^verbatim>\<open>extract_ngrams\<close>, for a size \<open>n\<close> that is a natural number.\<close>

definition extract_ngrams :: "NLPAnalyzer \<Rightarrow> string \<Rightarrow> nat \<Rightarrow> string list" where
  "extract_ngrams self text n =
     (let words = str_split (str_lower text)
      in if length words < n then []
         else map (\<lambda>i. join_space (take n (drop i words))) [0..<length words - n + 1])"

text \<open>\<^verbatim>\<open>calculate_novelty_score\<close>: the loop over \<^verbatim>\<open>existing_texts\<close> adds up the overlaps.\<close>

fun overlap_loop ::
  "NLPAnalyzer \<Rightarrow> string set \<Rightarrow> nat \<Rightarrow> string list \<Rightarrow> real \<Rightarrow> py_error + real" where
  "overlap_loop self current_ngrams ngram_size [] total_overlap = Inr total_overlap"
| "overlap_loop self current_ngrams ngram_size (existing_text # rest) total_overlap =
     (let existing_ngrams = set (extract_ngrams self existing_text ngram_size)
      in if existing_ngrams \<noteq> {} then
           (let overlap = card (current_ngrams \<inter> existing_ngrams);
                max_possible = max (card current_ngrams) (card existing_ngrams)
            in if max_possible > 0 then
                 (case truediv (real overlap) (real max_possible) of
                    Inl e \<Rightarrow> Inl e
                  | Inr r \<Rightarrow>
                      overlap_loop self current_ngrams ngram_size rest (total_overlap + r))
               else overlap_loop self current_ngrams ngram_size rest total_overlap)
         else overlap_loop self current_ngrams ngram_size rest total_overlap)"

definition calculate_novelty_score ::
  "NLPAnalyzer \<Rightarrow> string \<Rightarrow> string list \<Rightarrow> nat \<Rightarrow> py_error + real" where
  "calculate_novelty_score self current_text existing_texts ngram_size =
     (if existing_texts = [] then Inr 1
      else
        (let current_ngrams = set (extract_ngrams self current_text ngram_size)
         in if current_ngrams = {} then Inr 0.5
            else
              (case overlap_loop self current_ngrams ngram_size existing_texts 0 of
                 Inl e \<Rightarrow> Inl e
               | Inr total_overlap \<Rightarrow>
                   (case (if existing_texts \<noteq> []
                          then truediv total_overlap (real (length existing_texts))
                          else Inr 0) of
                      Inl e \<Rightarrow> Inl e
                    | Inr avg_overlap \<Rightarrow>
                        (let novelty = 1 - min avg_overlap 1 in Inr (max 0 novelty))))))"

definition positive_words :: "string set" where
  "positive_words = set
     [''good'', ''great'', ''excellent'', ''amazing'', ''wonderful'', ''fantastic'',
      ''love'', ''like'', ''enjoy'', ''happy'', ''excited'', ''pleased'', ''satisfied'',
      ''awesome'', ''brilliant'', ''perfect'', ''success'', ''achievement'', ''win'']"

definition negative_words :: "string set" where
  "negative_words = set
     [''bad'', ''terrible'', ''awful'', ''horrible'', ''hate'', ''dislike'', ''sad'',
      ''angry'', ''frustrated'', ''disappointed'', ''failed'', ''failure'', ''wrong'',
      ''error'', ''problem'', ''issue'', ''difficult'', ''hard'', ''struggle'']"

definition analyze_sentiment_basic ::
  "NLPAnalyzer \<Rightarrow> string \<Rightarrow> py_error + (string \<times> real)" where
  "analyze_sentiment_basic self text =
     (let words = set (str_split (str_lower text));
          positive_count = card (words \<inter> positive_words);
          negative_count = card (words \<inter> negative_words);
          total_sentiment_words = positive_count + negative_count
      in if total_sentiment_words = 0 then Inr (''neutral'', 0.5)
         else
           (case truediv (real positive_count) (real total_sentiment_words) of
              Inl e \<Rightarrow> Inl e
            | Inr sentiment_score \<Rightarrow>
                if sentiment_score > 0.6 then Inr (''positive'', sentiment_score)
                else if sentiment_score < 0.4 then Inr (''negative'', 1 - sentiment_score)
                else Inr (''neutral'', 0.5)))"

definition calculate_complexity_score :: "NLPAnalyzer \<Rightarrow> string \<Rightarrow> py_error + real" where
  "calculate_complexity_score self text =
     (if text = [] then Inr 0
      else
        (let words = str_split text;
             sentences = str_split_on CHR ''.'' text
         in case (if words \<noteq> []
                  then truediv (real (sum_list (map length words))) (real (length words))
                  else Inr 0) of
              Inl e \<Rightarrow> Inl e
            | Inr avg_word_length \<Rightarrow>
           (case (if sentences \<noteq> []
                  then truediv (real (length words)) (real (length sentences))
                  else Inr 0) of
              Inl e \<Rightarrow> Inl e
            | Inr avg_sentence_length \<Rightarrow>
           (case (if words \<noteq> []
                  then truediv (real (card (set words))) (real (length words))
                  else Inr 0) of
              Inl e \<Rightarrow> Inl e
            | Inr vocab_richness \<Rightarrow>
                (let word_complexity = min (avg_word_length / 10) 1;
                     sentence_complexity = min (avg_sentence_length / 20) 1;
                     complexity = word_complexity * 0.3 + sentence_complexity * 0.4
                                    + vocab_richness * 0.3
                 in Inr (min complexity 1))))))"

section \<open>The scorer\<close>

record EnhancedThoughtScorer =
  nlp :: NLPAnalyzer

definition EnhancedThoughtScorer_init :: EnhancedThoughtScorer where
  "EnhancedThoughtScorer_init = \<lparr> nlp = NLPAnalyzer_init \<rparr>"

text \<open>
  \<^verbatim>\<open>calculate_enhanced_importance\<close>. The weights are its keyword arguments
  (defaults 0.2, 0.25, 0.3, 0.15, 0.1); \<^verbatim>\<open>existing_content\<close> is optional.
\<close>

definition metrics_dict :: "real \<Rightarrow> real \<Rightarrow> real \<Rightarrow> real \<Rightarrow> real \<Rightarrow> real \<Rightarrow> (string \<rightharpoonup> real)" where
  "metrics_dict length_factor complexity_factor novelty_factor sentiment_factor
       entropy_factor importance =
     Map.empty(''length_factor'' \<mapsto> length_factor,
               ''complexity_factor'' \<mapsto> complexity_factor,
               ''novelty_factor'' \<mapsto> novelty_factor,
               ''sentiment_factor'' \<mapsto> sentiment_factor,
               ''entropy_factor'' \<mapsto> entropy_factor,
               ''final_importance'' \<mapsto> importance)"

definition calculate_enhanced_importance ::
  "EnhancedThoughtScorer \<Rightarrow> string \<Rightarrow> real \<Rightarrow> real \<Rightarrow> real \<Rightarrow> real \<Rightarrow> real
     \<Rightarrow> string list option \<Rightarrow> py_error + (real \<times> (string \<rightharpoonup> real))" where
  "calculate_enhanced_importance self content length_weight complexity_weight
       novelty_weight sentiment_weight entropy_weight existing_content =
     (if content = [] then Inr (0, Map.empty)
      else
        (let length_factor = min (real (length content) / 500) 1
         in case calculate_complexity_score (nlp self) content of
              Inl e \<Rightarrow> Inl e
            | Inr complexity_factor \<Rightarrow>
           (case (case existing_content of
                    None \<Rightarrow> Inr 1
                  | Some texts \<Rightarrow>
                      if texts \<noteq> [] then calculate_novelty_score (nlp self) content texts 3
                      else Inr 1) of
              Inl e \<Rightarrow> Inl e
            | Inr novelty_factor \<Rightarrow>
           (case analyze_sentiment_basic (nlp self) content of
              Inl e \<Rightarrow> Inl e
            | Inr (sentiment, sentiment_strength) \<Rightarrow>
           (let sentiment_factor = (if sentiment = ''neutral'' then 0.3 else sentiment_strength)
            in case calculate_entropy (nlp self) content of
                 Inl e \<Rightarrow> Inl e
               | Inr entropy \<Rightarrow>
                   (let entropy_factor = min (entropy / 5) 1;
                        importance = length_factor * length_weight
                                       + complexity_factor * complexity_weight
                                       + novelty_factor * novelty_weight
                                       + sentiment_factor * sentiment_weight
                                       + entropy_factor * entropy_weight;
                        importance' = max 0 (min importance 1)
                    in Inr (importance',
                            metrics_dict length_factor complexity_factor novelty_factor
                              sentiment_factor entropy_factor importance')))))))"

section \<open>Reference formulas\<close>

text \<open>
  The quantities the specification names, written after its words; the theorems
  compare them with what the analyser computes.
\<close>



text \<open>Shannon entropy, in bits, of the characters of a text.\<close>

definition relative_frequency :: "string \<Rightarrow> char \<Rightarrow> real" where
  "relative_frequency s c = real (count_list s c) / real (length s)"

definition shannon_entropy :: "string \<Rightarrow> real" where
  "shannon_entropy s =
     - (\<Sum>c\<in>set s. relative_frequency s c * log 2 (relative_frequency s c))"

text \<open>The three ingredients of the complexity score; an average over no words is 0.\<close>

definition average_word_length :: "string \<Rightarrow> real" where
  "average_word_length text =
     (let ws = str_split text
      in if ws = [] then 0 else real (sum_list (map length ws)) / real (length ws))"

definition words_per_segment :: "string \<Rightarrow> real" where
  "words_per_segment text =
     real (length (str_split text)) / real (length (str_split_on CHR ''.'' text))"

definition vocabulary_richness :: "string \<Rightarrow> real" where
  "vocabulary_richness text =
     (let ws = str_split text
      in if ws = [] then 0 else real (card (set ws)) / real (length ws))"

text \<open>Overlap of n-gram sets, and its average over the reference texts supplied.\<close>

definition overlap_ratio :: "string set \<Rightarrow> string set \<Rightarrow> real" where
  "overlap_ratio current reference =
     real (card (current \<inter> reference)) / real (max (card current) (card reference))"

definition reference_overlap :: "NLPAnalyzer \<Rightarrow> string set \<Rightarrow> nat \<Rightarrow> string \<Rightarrow> real" where
  "reference_overlap self current n reference_text =
     (let reference = set (extract_ngrams self reference_text n)
      in if reference = {} then 0 else overlap_ratio current reference)"

definition average_overlap :: "NLPAnalyzer \<Rightarrow> string \<Rightarrow> string list \<Rightarrow> nat \<Rightarrow> real" where
  "average_overlap self current_text reference_texts n =
     sum_list (map (reference_overlap self (set (extract_ngrams self current_text n)) n)
                 reference_texts)
       / real (length reference_texts)"

text \<open>The sentiment rule on the two counts of sentiment words.\<close>

definition sentiment_of_counts :: "nat \<Rightarrow> nat \<Rightarrow> string \<times> real" where
  "sentiment_of_counts positive_count negative_count =
     (if positive_count = 0 \<and> negative_count = 0 then (''neutral'', 0.5)
      else
        (let s = real positive_count / real (positive_count + negative_count)
         in if s > 0.6 then (''positive'', s)
            else if s < 0.4 then (''negative'', 1 - s)
            else (''neutral'', 0.5)))"

definition clamp :: "real \<Rightarrow> real \<Rightarrow> real \<Rightarrow> real" where
  "clamp x lo hi = max lo (min x hi)"

section \<open>Properties of the primitives\<close>

text \<open>Evaluation of the character classes at a given character.\<close>

named_theorems char_eval

lemma isspace_Char [char_eval]:
  "isspace (Char b0 b1 b2 b3 b4 b5 b6 b7) =
     (let n = (of_char (Char b0 b1 b2 b3 b4 b5 b6 b7) :: nat)
      in (9 \<le> n \<and> n \<le> 13) \<or> (28 \<le> n \<and> n \<le> 32) \<or> n = 133 \<or> n = 160)"
  by (simp add: isspace_def code_point_def)

lemma is_ascii_alpha_Char [char_eval]:
  "is_ascii_alpha (Char b0 b1 b2 b3 b4 b5 b6 b7) =
     (let n = (of_char (Char b0 b1 b2 b3 b4 b5 b6 b7) :: nat)
      in (97 \<le> n \<and> n \<le> 122) \<or> (65 \<le> n \<and> n \<le> 90))"
  by (simp add: is_ascii_alpha_def code_point_def)

lemma is_word_char_Char [char_eval]:
  "is_word_char (Char b0 b1 b2 b3 b4 b5 b6 b7) =
     (let n = (of_char (Char b0 b1 b2 b3 b4 b5 b6 b7) :: nat)
      in (48 \<le> n \<and> n \<le> 57) \<or> (65 \<le> n \<and> n \<le> 90) \<or> n = 95 \<or> (97 \<le> n \<and> n \<le> 122)
         \<or> n = 170 \<or> n = 178 \<or> n = 179 \<or> n = 181 \<or> n = 185 \<or> n = 186
         \<or> (188 \<le> n \<and> n \<le> 190) \<or> (192 \<le> n \<and> n \<le> 214) \<or> (216 \<le> n \<and> n \<le> 246)
         \<or> 248 \<le> n)"
  by (simp add: is_word_char_def code_point_def)

lemma lower_char_Char [char_eval]:
  "lower_char (Char b0 b1 b2 b3 b4 b5 b6 b7) =
     (let n = (of_char (Char b0 b1 b2 b3 b4 b5 b6 b7) :: nat)
      in if (65 \<le> n \<and> n \<le> 90) \<or> (192 \<le> n \<and> n \<le> 222 \<and> n \<noteq> 215)
         then char_of (n + 32) else Char b0 b1 b2 b3 b4 b5 b6 b7)"
  by (simp add: lower_char_def code_point_def)

lemma char_of_105 [char_eval]: "char_of (105 :: nat) = CHR ''i''"
  by code_simp

lemma truediv_Inr: "b \<noteq> 0 \<Longrightarrow> truediv a b = Inr (a / b)"
  by (simp add: truediv_def)

lemma split_on_acc_nonempty: "split_on_acc sep cur s \<noteq> []"
  by (induction s arbitrary: cur) auto

lemma str_split_on_nonempty: "str_split_on sep text \<noteq> []"
  by (simp add: str_split_on_def split_on_acc_nonempty)

lemma keys_counter_add:
  "map fst (counter_add x m) = (if x \<in> fst ` set m then map fst m else map fst m @ [x])"
  by (induction m) (force split: if_splits)+

lemma map_of_counter_add:
  "map_of (counter_add x m) = (map_of m)(x \<mapsto> (case map_of m x of None \<Rightarrow> 1 | Some c \<Rightarrow> Suc c))"
  by (induction m) (auto simp: fun_eq_iff)

lemma foldl_counter_keys:
  "distinct (map fst m) \<Longrightarrow>
     distinct (map fst (foldl (\<lambda>counts x. counter_add x counts) m xs)) \<and>
     fst ` set (foldl (\<lambda>counts x. counter_add x counts) m xs) = fst ` set m \<union> set xs"
proof (induction xs arbitrary: m)
  case Nil
  then show ?case by simp
next
  case (Cons x xs)
  have d: "distinct (map fst (counter_add x m))"
    using Cons.prems by (auto simp: keys_counter_add)
  have s: "fst ` set (counter_add x m) = insert x (fst ` set m)"
    using arg_cong [OF keys_counter_add [of x m], of set] by (auto split: if_splits)
  show ?case using Cons.IH [OF d] s by auto
qed

lemma foldl_counter_map_of:
  "map_of (foldl (\<lambda>counts x. counter_add x counts) m xs) k =
     (if k \<in> set xs then Some (cnt m k + count_list xs k) else map_of m k)"
proof (induction xs arbitrary: m)
  case Nil
  then show ?case by simp
next
  case (Cons x xs)
  show ?case
    by (simp add: Cons.IH map_of_counter_add cnt_def split: option.splits)
qed

lemma Counter_distinct: "distinct (map fst (Counter xs))"
  using foldl_counter_keys [of "[]" xs] by (simp add: Counter_def)

lemma Counter_keys: "fst ` set (Counter xs) = set xs"
  using foldl_counter_keys [of "[]" xs] by (simp add: Counter_def)

lemma Counter_map_of: "map_of (Counter xs) k = (if k \<in> set xs then Some (count_list xs k) else None)"
  using foldl_counter_map_of [of "[]" xs k] by (simp add: Counter_def cnt_def)

lemma Counter_entry: "(k, c) \<in> set (Counter xs) \<Longrightarrow> c = count_list xs k \<and> k \<in> set xs"
  using Counter_map_of [of xs k] Counter_distinct [of xs]
  by (auto split: if_splits dest: map_of_SomeD simp: map_of_eq_Some_iff)

lemma Counter_eq: "Counter xs = map (\<lambda>k. (k, count_list xs k)) (map fst (Counter xs))"
proof -
  have "map (\<lambda>p. (fst p, count_list xs (fst p))) (Counter xs) = map (\<lambda>p. p) (Counter xs)"
    by (rule map_cong) (auto dest: Counter_entry)
  then show ?thesis by (simp add: comp_def)
qed

lemma Counter_length: "length (Counter xs) = card (set xs)"
proof -
  have "length (Counter xs) = length (map fst (Counter xs))" by simp
  also have "\<dots> = card (set (map fst (Counter xs)))"
    using Counter_distinct [of xs] by (simp add: distinct_card del: length_map set_map)
  also have "\<dots> = card (set xs)" using Counter_keys [of xs] by simp
  finally show ?thesis .
qed

lemma Counter_sum:
  "sum_list (map (\<lambda>p. f (snd p)) (Counter xs)) = (\<Sum>k\<in>set xs. f (count_list xs k))"
proof -
  have "sum_list (map (\<lambda>p. f (snd p)) (Counter xs))
      = sum_list (map (\<lambda>k. f (count_list xs k)) (map fst (Counter xs)))"
    by (subst Counter_eq) (simp add: comp_def)
  also have "\<dots> = (\<Sum>k\<in>set (map fst (Counter xs)). f (count_list xs k))"
    by (rule sum_list_distinct_conv_sum_set [OF Counter_distinct])
  also have "\<dots> = (\<Sum>k\<in>set xs. f (count_list xs k))"
    using Counter_keys [of xs] by simp
  finally show ?thesis .
qed

section \<open>The values the analyser returns\<close>

lemma complexity_value:
  "calculate_complexity_score self text =
     Inr (if text = [] then 0
          else min (min (average_word_length text / 10) 1 * 0.3
                    + min (words_per_segment text / 20) 1 * 0.4
                    + vocabulary_richness text * 0.3) 1)"
  by (simp add: calculate_complexity_score_def average_word_length_def words_per_segment_def
      vocabulary_richness_def truediv_Inr str_split_on_nonempty Let_def)

lemma sentiment_value:
  "analyze_sentiment_basic self text =
     Inr (sentiment_of_counts
            (card (set (str_split (str_lower text)) \<inter> positive_words))
            (card (set (str_split (str_lower text)) \<inter> negative_words)))"
proof -
  define p where "p = card (set (str_split (str_lower text)) \<inter> positive_words)"
  define n where "n = card (set (str_split (str_lower text)) \<inter> negative_words)"
  have unfold: "analyze_sentiment_basic self text =
     (if p + n = 0 then Inr (''neutral'', 0.5)
      else case truediv (real p) (real (p + n)) of
             Inl e \<Rightarrow> Inl e
           | Inr sentiment_score \<Rightarrow>
               if sentiment_score > 0.6 then Inr (''positive'', sentiment_score)
               else if sentiment_score < 0.4 then Inr (''negative'', 1 - sentiment_score)
               else Inr (''neutral'', 0.5))"
    unfolding analyze_sentiment_basic_def Let_def p_def n_def ..
  show ?thesis
  proof (cases "p + n = 0")
    case True
    then show ?thesis
      unfolding unfold p_def [symmetric] n_def [symmetric] sentiment_of_counts_def by simp
  next
    case False
    then have t: "truediv (real p) (real (p + n)) = Inr (real p / real (p + n))"
      by (intro truediv_Inr) (simp del: of_nat_add)
    from False have pn: "\<not> (p = 0 \<and> n = 0)" by simp
    show ?thesis
      unfolding unfold p_def [symmetric] n_def [symmetric] sentiment_of_counts_def Let_def t
      using False pn by (simp del: of_nat_add)
  qed
qed

lemma entropy_loop_value:
  "n \<noteq> 0 \<Longrightarrow>
     entropy_loop counts n acc =
       Inr (acc - sum_list (map (\<lambda>c. (real c / real n) * log 2 (real c / real n)) counts))"
proof (induction counts arbitrary: acc)
  case Nil
  then show ?case by simp
next
  case (Cons c counts)
  show ?case
  proof (cases "c = 0")
    case True
    then show ?thesis using Cons by (simp add: truediv_Inr)
  next
    case False
    then have "real c / real n > 0" using Cons.prems by simp
    then show ?thesis using Cons by (simp add: truediv_Inr log2_def algebra_simps)
  qed
qed

lemma length_str_lower: "length (str_lower text) = length text"
  by (simp add: str_lower_def)

lemma entropy_value: "calculate_entropy self text = Inr (shannon_entropy (str_lower text))"
proof (cases "text = []")
  case True
  then show ?thesis by (simp add: calculate_entropy_def shannon_entropy_def str_lower_def)
next
  case False
  then have t: "length text \<noteq> 0" by simp
  have "sum_list (map (\<lambda>c. (real c / real (length text)) * log 2 (real c / real (length text)))
          (map snd (Counter (str_lower text))))
      = (\<Sum>k\<in>set (str_lower text). relative_frequency (str_lower text) k
            * log 2 (relative_frequency (str_lower text) k))"
    using Counter_sum [of "\<lambda>c. (real c / real (length text)) * log 2 (real c / real (length text))"
        "str_lower text"]
    by (simp add: comp_def relative_frequency_def length_str_lower)
  then show ?thesis
    using False by (simp add: calculate_entropy_def entropy_loop_value [OF t] shannon_entropy_def)
qed

lemma isspace_lower_char: "isspace (lower_char c) = isspace c"
  by (auto simp: isspace_def lower_char_def code_point_def Let_def)

lemma runs_acc_map:
  "(\<And>c. P (f c) = P c) \<Longrightarrow> runs_acc P (map f cur) (map f s) = map (map f) (runs_acc P cur s)"
proof (induction s arbitrary: cur)
  case Nil
  then show ?case by simp
next
  case (Cons c s)
  have "runs_acc P (map f (cur @ [c])) (map f s) = map (map f) (runs_acc P (cur @ [c]) s)"
    by (rule Cons.IH) (rule Cons.prems)
  moreover have "runs_acc P (map f []) (map f s) = map (map f) (runs_acc P [] s)"
    by (rule Cons.IH) (rule Cons.prems)
  ultimately show ?case using Cons.prems by simp
qed

lemma str_split_lower: "str_split (str_lower text) = map str_lower (str_split text)"
  using runs_acc_map [of "\<lambda>c. \<not> isspace c" lower_char "[]" "text"]
  by (simp add: str_split_def maximal_runs_def str_lower_def isspace_lower_char)

lemma length_str_split_lower: "length (str_split (str_lower text)) = length (str_split text)"
  by (simp add: str_split_lower)

lemma repetition_value:
  "calculate_repetition_score self text =
     Inr (let ws = str_split (str_lower text)
          in if length ws \<le> 1 then 0
             else min (1 - real (card (set ws)) / real (length ws)) 1)"
proof (cases "length (str_split (str_lower text)) \<le> 1")
  case True
  then show ?thesis by (simp add: calculate_repetition_score_def Let_def)
next
  case False
  then have "real (length (str_split (str_lower text))) \<noteq> 0"
    and "str_split (str_lower text) \<noteq> []" by auto
  then show ?thesis
    using False by (simp add: calculate_repetition_score_def Let_def truediv_Inr Counter_length)
qed

lemma densities_loop_value:
  "n \<noteq> 0 \<Longrightarrow> distinct (map fst items) \<Longrightarrow>
     densities_loop items n d =
       Inr (\<lambda>k. case map_of items k of Some c \<Rightarrow> Some (real c / real n) | None \<Rightarrow> d k)"
proof (induction items arbitrary: d)
  case Nil
  then show ?case by simp
next
  case (Cons item items)
  obtain k0 c0 where item: "item = (k0, c0)" by (cases item)
  have none: "map_of items k0 = None"
    using Cons.prems(2) item by (simp add: map_of_eq_None_iff)
  have "densities_loop items n (d(k0 \<mapsto> real c0 / real n)) =
      Inr (\<lambda>k. case map_of items k of Some c \<Rightarrow> Some (real c / real n)
                | None \<Rightarrow> (d(k0 \<mapsto> real c0 / real n)) k)"
    using Cons.prems by (intro Cons.IH) simp_all
  then show ?case
    using Cons.prems(1) none by (auto simp: item truediv_Inr fun_eq_iff split: option.splits)
qed

lemma count_list_distinct: "distinct xs \<Longrightarrow> x \<in> set xs \<Longrightarrow> count_list xs x = 1"
  by (induction xs) auto

lemma distinct_extract_keywords: "distinct (extract_keywords self text m)"
  by (simp add: extract_keywords_def Let_def)

lemma keyword_density_value:
  "calculate_keyword_density self text =
     Inr (if str_split text = [] then Map.empty
          else (\<lambda>k. if k \<in> set (extract_keywords self text 3)
                    then Some (1 / real (length (str_split text))) else None))"
proof (cases "str_split text = []")
  case True
  then show ?thesis by (simp add: calculate_keyword_density_def)
next
  case False
  then have n: "length (str_split text) \<noteq> 0" by simp
  have one: "k \<in> set (extract_keywords self text 3) \<Longrightarrow>
      count_list (extract_keywords self text 3) k = 1" for k
    using distinct_extract_keywords [of self "text" 3] by (simp add: count_list_distinct)
  show ?thesis
    using False
    by (auto simp: calculate_keyword_density_def Let_def
        densities_loop_value [OF n Counter_distinct] Counter_map_of one fun_eq_iff)
qed

lemma overlap_loop_value:
  "overlap_loop self cur n refs acc = Inr (acc + sum_list (map (reference_overlap self cur n) refs))"
proof (induction refs arbitrary: acc)
  case Nil
  then show ?case by simp
next
  case (Cons r refs)
  show ?case
  proof (cases "extract_ngrams self r n = []")
    case True
    then show ?thesis by (simp add: Cons.IH reference_overlap_def)
  next
    case False
    then have pos: "0 < card (set (extract_ngrams self r n))"
      by (simp add: card_gt_0_iff)
    have mp: "0 < max (card cur) (card (set (extract_ngrams self r n)))"
      using pos by (rule max.strict_coboundedI2)
    have m: "real (max (card cur) (card (set (extract_ngrams self r n)))) \<noteq> 0"
      using False by (simp del: of_nat_max)
    have step: "overlap_loop self cur n (r # refs) acc =
        overlap_loop self cur n refs
          (acc + real (card (cur \<inter> set (extract_ngrams self r n)))
                   / real (max (card cur) (card (set (extract_ngrams self r n)))))"
      using False mp unfolding overlap_loop.simps Let_def truediv_Inr [OF m] by simp
    have ro: "reference_overlap self cur n r =
        real (card (cur \<inter> set (extract_ngrams self r n)))
          / real (max (card cur) (card (set (extract_ngrams self r n))))"
      using False by (simp add: reference_overlap_def overlap_ratio_def Let_def)
    show ?thesis
      unfolding step Cons.IH by (simp add: ro)
  qed
qed

lemma novelty_value:
  "calculate_novelty_score self current_text existing_texts n =
     Inr (if existing_texts = [] then 1
          else if set (extract_ngrams self current_text n) = {} then 0.5
          else max 0 (1 - min (average_overlap self current_text existing_texts n) 1))"
  by (simp add: calculate_novelty_score_def overlap_loop_value truediv_Inr average_overlap_def
      Let_def)

lemma importance_step:
  assumes "content \<noteq> []"
    and "calculate_complexity_score (nlp self) content = Inr cf"
    and "(case existing of None \<Rightarrow> Inr 1
          | Some texts \<Rightarrow>
              if texts \<noteq> [] then calculate_novelty_score (nlp self) content texts 3
              else Inr 1) = Inr nf"
    and "analyze_sentiment_basic (nlp self) content = Inr (label, strength)"
    and "calculate_entropy (nlp self) content = Inr ent"
  shows "calculate_enhanced_importance self content lw cw nw sw ew existing =
     Inr (clamp (min (real (length content) / 500) 1 * lw + cf * cw + nf * nw
                 + (if label = ''neutral'' then 0.3 else strength) * sw
                 + min (ent / 5) 1 * ew) 0 1,
          metrics_dict (min (real (length content) / 500) 1) cf nf
            (if label = ''neutral'' then 0.3 else strength) (min (ent / 5) 1)
            (clamp (min (real (length content) / 500) 1 * lw + cf * cw + nf * nw
                 + (if label = ''neutral'' then 0.3 else strength) * sw
                 + min (ent / 5) 1 * ew) 0 1))"
  unfolding calculate_enhanced_importance_def Let_def assms(2-5) clamp_def
  using assms(1) by simp

lemma novelty_factor_total:
  "\<exists>nf. (case existing of None \<Rightarrow> Inr 1
          | Some texts \<Rightarrow>
              if texts \<noteq> [] then calculate_novelty_score self content texts 3
              else Inr 1) = (Inr nf :: py_error + real)"
  by (cases existing) (simp_all add: novelty_value)

lemma extract_ngrams_self: "extract_ngrams self1 t n = extract_ngrams self2 t n"
  by (simp add: extract_ngrams_def)

lemma reference_overlap_self:
  "reference_overlap self1 cur n r = reference_overlap self2 cur n r"
  by (simp add: reference_overlap_def extract_ngrams_self [of self1 r n self2])

lemma novelty_self:
  "calculate_novelty_score self1 t refs n = calculate_novelty_score self2 t refs n"
proof -
  have "reference_overlap self1 = reference_overlap self2"
    by (intro ext) (rule reference_overlap_self)
  then show ?thesis
    by (simp add: novelty_value average_overlap_def extract_ngrams_self [of self1 t n self2])
qed

lemma extract_ngrams_nonempty:
  "n \<le> length (str_split t) \<Longrightarrow> extract_ngrams self t n \<noteq> []"
  by (simp add: extract_ngrams_def length_str_split_lower Let_def)

lemma self_novelty:
  assumes "3 \<le> length (str_split x)"
  shows "calculate_novelty_score self x [x] 3 = Inr 0"
proof -
  have ne: "extract_ngrams self x 3 \<noteq> []"
    using assms by (rule extract_ngrams_nonempty)
  then have "card (set (extract_ngrams self x 3)) \<noteq> 0" by simp
  then have "average_overlap self x [x] 3 = 1"
    using ne by (simp add: average_overlap_def reference_overlap_def overlap_ratio_def)
  then show ?thesis using ne by (simp add: novelty_value)
qed



lemma tok_love: "str_split (str_lower ''I love this, it is great and wonderful'')
   = [''i'', ''love'', ''this,'', ''it'', ''is'', ''great'', ''and'', ''wonderful'']"
  by (simp add: str_split_def maximal_runs_def str_lower_def char_eval)

lemma tok_unsure: "str_split (str_lower
      ''I am not sure why this keeps failing, can someone help me understand the error?'')
   = [''i'', ''am'', ''not'', ''sure'', ''why'', ''this'', ''keeps'', ''failing,'', ''can'',
      ''someone'', ''help'', ''me'', ''understand'', ''the'', ''error?'']"
  by (simp add: str_split_def maximal_runs_def str_lower_def char_eval)

lemma sentiment_love:
  "card (set (str_split (str_lower ''I love this, it is great and wonderful'')) \<inter> positive_words) = 3"
  "card (set (str_split (str_lower ''I love this, it is great and wonderful'')) \<inter> negative_words) = 0"
  unfolding tok_love by (simp_all add: positive_words_def negative_words_def)

lemma sentiment_unsure:
  "card (set (str_split (str_lower
      ''I am not sure why this keeps failing, can someone help me understand the error?''))
        \<inter> positive_words) = 0"
  "card (set (str_split (str_lower
      ''I am not sure why this keeps failing, can someone help me understand the error?''))
        \<inter> negative_words) = 0"
  unfolding tok_unsure by (simp_all add: positive_words_def negative_words_def)

lemma metrics_dict_dom:
  "dom (metrics_dict lf cf nf sf ef imp) =
     {''length_factor'', ''complexity_factor'', ''novelty_factor'', ''sentiment_factor'',
      ''entropy_factor'', ''final_importance''}"
  by (auto simp: metrics_dict_def)

lemma metrics_dict_final: "metrics_dict lf cf nf sf ef imp ''final_importance'' = Some imp"
  by (simp add: metrics_dict_def)

subsection \<open>Ranges and defaults\<close>

lemma shannon_entropy_nonneg: "0 \<le> shannon_entropy s"
proof -
  have "relative_frequency s c * log 2 (relative_frequency s c) \<le> 0" if "c \<in> set s" for c
  proof -
    have "count_list s c \<noteq> 0" using that by (simp add: count_list_0_iff)
    then have pos: "0 < count_list s c" by simp
    have le: "count_list s c \<le> length s" by (rule count_le_length)
    have len: "0 < length s" using pos le by linarith
    have p0: "0 < relative_frequency s c"
      using pos len by (simp add: relative_frequency_def)
    have p1: "relative_frequency s c \<le> 1"
      using le len by (simp add: relative_frequency_def)
    have "log 2 (relative_frequency s c) \<le> 0"
      using p0 p1 by simp
    then show ?thesis using p0 by (simp add: mult_le_0_iff)
  qed
  then have "(\<Sum>c\<in>set s. relative_frequency s c * log 2 (relative_frequency s c)) \<le> 0"
    by (rule sum_nonpos)
  then show ?thesis by (simp add: shannon_entropy_def)
qed

lemma sentiment_of_counts_range:
  "0 \<le> snd (sentiment_of_counts p n) \<and> snd (sentiment_of_counts p n) \<le> 1"
proof -
  have "0 \<le> real p / real (p + n)" by simp
  moreover have "real p / real (p + n) \<le> 1"
  proof (cases "p + n = 0")
    case True
    then show ?thesis by simp
  next
    case False
    then have "0 < real (p + n)" by (simp del: of_nat_add)
    then show ?thesis by (simp add: divide_le_eq_1 del: of_nat_add)
  qed
  ultimately show ?thesis
    by (simp add: sentiment_of_counts_def Let_def del: of_nat_add)
qed

lemma reference_overlap_nonneg: "0 \<le> reference_overlap self cur n r"
  by (simp add: reference_overlap_def overlap_ratio_def Let_def del: of_nat_max)

lemma average_overlap_nonneg: "0 \<le> average_overlap self t refs n"
  unfolding average_overlap_def
  by (intro divide_nonneg_nonneg sum_list_nonneg) (auto simp: reference_overlap_nonneg)

lemma novelty_range:
  "\<exists>v. calculate_novelty_score self t refs n = Inr v \<and> 0 \<le> v \<and> v \<le> 1"
  using average_overlap_nonneg [of self t refs n]
  by (simp add: novelty_value)

lemma card_set_le_length_real: "real (card (set ws)) / real (length ws) \<le> 1"
  by (simp add: divide_le_eq_1 card_length)

lemma repetition_range:
  "\<exists>r. calculate_repetition_score self t = Inr r \<and> 0 \<le> r \<and> r \<le> 1"
  using card_set_le_length_real [of "str_split (str_lower t)"]
  by (simp add: repetition_value Let_def)

lemma complexity_parts_nonneg:
  "0 \<le> average_word_length t" "0 \<le> words_per_segment t" "0 \<le> vocabulary_richness t"
  by (simp_all add: average_word_length_def words_per_segment_def vocabulary_richness_def Let_def)

lemma complexity_range:
  "\<exists>c. calculate_complexity_score self t = Inr c \<and> 0 \<le> c \<and> c \<le> 1"
proof -
  have "0 \<le> min (average_word_length t / 10) 1 * 0.3" 
    using complexity_parts_nonneg(1) [of t] by simp
  moreover have "0 \<le> min (words_per_segment t / 20) 1 * 0.4"
    using complexity_parts_nonneg(2) [of t] by simp
  moreover have "0 \<le> vocabulary_richness t * 0.3"
    using complexity_parts_nonneg(3) [of t] by simp
  ultimately have "0 \<le> min (average_word_length t / 10) 1 * 0.3
                    + min (words_per_segment t / 20) 1 * 0.4
                    + vocabulary_richness t * 0.3"
    by linarith
  then show ?thesis by (simp add: complexity_value)
qed

lemma keyword_density_range:
  "\<exists>d. calculate_keyword_density self t = Inr d \<and> (\<forall>k v. d k = Some v \<longrightarrow> 0 \<le> v \<and> v \<le> 1)"
proof (cases "str_split t = []")
  case True
  then show ?thesis by (simp add: keyword_density_value)
next
  case False
  then have "1 \<le> real (length (str_split t))"
    by (cases "str_split t") simp_all
  then have "1 / real (length (str_split t)) \<le> 1" by (simp add: divide_le_eq_1)
  then show ?thesis using False by (auto simp: keyword_density_value split: if_splits)
qed

lemma sentiment_range:
  "\<exists>label s. analyze_sentiment_basic self t = Inr (label, s) \<and> 0 \<le> s \<and> s \<le> 1"
proof -
  obtain label s where ls: "sentiment_of_counts
            (card (set (str_split (str_lower t)) \<inter> positive_words))
            (card (set (str_split (str_lower t)) \<inter> negative_words)) = (label, s)"
    by (cases "sentiment_of_counts
            (card (set (str_split (str_lower t)) \<inter> positive_words))
            (card (set (str_split (str_lower t)) \<inter> negative_words))") 
  have "0 \<le> s \<and> s \<le> 1"
    using sentiment_of_counts_range [of "card (set (str_split (str_lower t)) \<inter> positive_words)"
        "card (set (str_split (str_lower t)) \<inter> negative_words)"]
    unfolding ls by simp
  then show ?thesis by (simp add: sentiment_value ls)
qed

lemma importance_range:
  "\<exists>i f. calculate_enhanced_importance scorer t lw cw nw sw ew existing = Inr (i, f)
         \<and> 0 \<le> i \<and> i \<le> 1"
proof (cases "t = []")
  case True
  then show ?thesis by (simp add: calculate_enhanced_importance_def)
next
  case ne: False
  obtain cf where cf: "calculate_complexity_score (nlp scorer) t = Inr cf"
    using complexity_value by blast
  obtain nf where nf: "(case existing of None \<Rightarrow> Inr 1
          | Some texts \<Rightarrow>
              if texts \<noteq> [] then calculate_novelty_score (nlp scorer) t texts 3
              else Inr 1) = (Inr nf :: py_error + real)"
    using novelty_factor_total by blast
  obtain label strength where
    se: "analyze_sentiment_basic (nlp scorer) t = Inr (label, strength)"
    using sentiment_range by blast
  obtain ent where ent: "calculate_entropy (nlp scorer) t = Inr ent"
    using entropy_value by blast
  have "0 \<le> clamp x 0 1 \<and> clamp x 0 1 \<le> 1" for x
    by (simp add: clamp_def)
  then show ?thesis
    unfolding importance_step [OF ne cf nf se ent] by blast
qed

lemma empty_defaults:
  "extract_keywords self [] 3 = []"
  "extract_ngrams self [] 2 = []"
  "calculate_keyword_density self [] = Inr Map.empty"
  "calculate_repetition_score self [] = Inr 0"
  "calculate_entropy self [] = Inr 0"
  "calculate_novelty_score self [] [] 3 = Inr 1"
  "analyze_sentiment_basic self [] = Inr (''neutral'', 0.5)"
  "calculate_complexity_score self [] = Inr 0"
  "calculate_enhanced_importance scorer [] lw cw nw sw ew existing = Inr (0, Map.empty)"
  by (simp_all add: extract_keywords_def re_findall_def re_match_def at_boundary_def
      is_word_opt_def str_lower_def extract_ngrams_def str_split_def maximal_runs_def
      calculate_keyword_density_def calculate_repetition_score_def calculate_entropy_def
      calculate_novelty_score_def analyze_sentiment_basic_def calculate_complexity_score_def
      calculate_enhanced_importance_def)

subsection \<open>The pattern matcher\<close>


















section \<open>The claims\<close>

text \<open>
  C1. \<^verbatim>\<open>calculate_enhanced_importance\<close> returns \<open>(0.0, {})\<close> for the empty content.
  For any other content, any weights and any reference list, absent or not, it returns
  the weighted sum of the five factors clamped to \<open>[0, 1]\<close>: the length factor is
  \<open>min (len / 500) 1\<close>, the complexity factor is what \<^verbatim>\<open>calculate_complexity_score\<close>
  returns, the novelty factor is what \<^verbatim>\<open>calculate_novelty_score\<close> returns for a
  non-empty reference list and 1 otherwise, the sentiment factor is 0.3 for the label
  neutral and the sentiment strength otherwise, and the entropy factor is
  \<open>min (entropy / 5) 1\<close>.
\<close>

theorem calculate_enhanced_importance_formula:
  "calculate_enhanced_importance self [] lw cw nw sw ew existing = Inr (0, Map.empty) \<and>
   (content \<noteq> [] \<longrightarrow>
     (\<exists>cf nf label strength ent factors.
        calculate_complexity_score (nlp self) content = Inr cf \<and>
        (case existing of
           None \<Rightarrow> nf = 1
         | Some texts \<Rightarrow>
             if texts \<noteq> [] then calculate_novelty_score (nlp self) content texts 3 = Inr nf
             else nf = 1) \<and>
        analyze_sentiment_basic (nlp self) content = Inr (label, strength) \<and>
        calculate_entropy (nlp self) content = Inr ent \<and>
        calculate_enhanced_importance self content lw cw nw sw ew existing =
          Inr (clamp (min (real (length content) / 500) 1 * lw + cf * cw + nf * nw
                      + (if label = ''neutral'' then 0.3 else strength) * sw
                      + min (ent / 5) 1 * ew) 0 1,
               factors)))"
proof (intro conjI impI)
  show "calculate_enhanced_importance self [] lw cw nw sw ew existing = Inr (0, Map.empty)"
    by (simp add: calculate_enhanced_importance_def)
next
  assume ne: "content \<noteq> []"
  obtain cf where cf: "calculate_complexity_score (nlp self) content = Inr cf"
    using complexity_value by blast
  obtain nf where nf: "(case existing of None \<Rightarrow> Inr 1
          | Some texts \<Rightarrow>
              if texts \<noteq> [] then calculate_novelty_score (nlp self) content texts 3
              else Inr 1) = (Inr nf :: py_error + real)"
    using novelty_factor_total by blast
  obtain label strength where
    se: "analyze_sentiment_basic (nlp self) content = Inr (label, strength)"
    using sentiment_value [of "nlp self" content]
    by (cases "sentiment_of_counts
            (card (set (str_split (str_lower content)) \<inter> positive_words))
            (card (set (str_split (str_lower content)) \<inter> negative_words))") auto
  obtain ent where ent: "calculate_entropy (nlp self) content = Inr ent"
    using entropy_value by blast
  have nf': "(case existing of
           None \<Rightarrow> nf = 1
         | Some texts \<Rightarrow>
             if texts \<noteq> [] then calculate_novelty_score (nlp self) content texts 3 = Inr nf
             else nf = 1)"
    using nf by (auto split: option.splits if_splits)
  show "\<exists>cf nf label strength ent factors.
        calculate_complexity_score (nlp self) content = Inr cf \<and>
        (case existing of
           None \<Rightarrow> nf = 1
         | Some texts \<Rightarrow>
             if texts \<noteq> [] then calculate_novelty_score (nlp self) content texts 3 = Inr nf
             else nf = 1) \<and>
        analyze_sentiment_basic (nlp self) content = Inr (label, strength) \<and>
        calculate_entropy (nlp self) content = Inr ent \<and>
        calculate_enhanced_importance self content lw cw nw sw ew existing =
          Inr (clamp (min (real (length content) / 500) 1 * lw + cf * cw + nf * nw
                      + (if label = ''neutral'' then 0.3 else strength) * sw
                      + min (ent / 5) 1 * ew) 0 1,
               factors)"
    using cf nf' se ent importance_step [OF ne cf nf se ent] by blast
qed

theorem calculate_enhanced_importance_formula_witness:
  "''ab'' \<noteq> [] \<and>
   (\<exists>cf nf label strength ent factors.
        calculate_complexity_score (nlp EnhancedThoughtScorer_init) ''ab'' = Inr cf \<and>
        calculate_novelty_score (nlp EnhancedThoughtScorer_init) ''ab'' [''ab''] 3 = Inr nf \<and>
        analyze_sentiment_basic (nlp EnhancedThoughtScorer_init) ''ab'' = Inr (label, strength) \<and>
        calculate_entropy (nlp EnhancedThoughtScorer_init) ''ab'' = Inr ent \<and>
        calculate_enhanced_importance EnhancedThoughtScorer_init ''ab'' 0.2 0.25 0.3 0.15 0.1
            (Some [''ab'']) =
          Inr (clamp (min (real (length ''ab'') / 500) 1 * 0.2 + cf * 0.25 + nf * 0.3
                      + (if label = ''neutral'' then 0.3 else strength) * 0.15
                      + min (ent / 5) 1 * 0.1) 0 1,
               factors))"
  using calculate_enhanced_importance_formula
    [where self = EnhancedThoughtScorer_init and content = "''ab''"
       and existing = "Some [''ab'']" and lw = "0.2" and cw = "0.25" and nw = "0.3"
       and sw = "0.15" and ew = "0.1"]
  by simp

text \<open>
  C4. At n-gram size 3, \<^verbatim>\<open>calculate_novelty_score\<close> returns 1 for an empty reference
  list; otherwise 0.5 when the current text has no 3-gram; otherwise
  \<open>max 0 (1 - min avg 1)\<close>, where \<open>avg\<close> adds the overlap ratio
  \<open>|current \<inter> reference| / max |current| |reference|\<close> of every reference that has a
  3-gram and divides by the number of all references supplied. So the score of any
  text against no reference is 1, and the score of a text of at least three
  whitespace tokens against itself is 0.
\<close>

theorem calculate_novelty_score_formula:
  "calculate_novelty_score self current_text reference_texts 3 =
     Inr (if reference_texts = [] then 1
          else if set (extract_ngrams self current_text 3) = {} then 0.5
          else max 0 (1 - min (average_overlap self current_text reference_texts 3) 1)) \<and>
   calculate_novelty_score self x [] 3 = Inr 1 \<and>
   (3 \<le> length (str_split x) \<longrightarrow> calculate_novelty_score self x [x] 3 = Inr 0)"
  using novelty_value [of self current_text reference_texts 3] novelty_value [of self x "[]" 3]
    self_novelty [of x self]
  by simp

theorem calculate_novelty_score_formula_witness:
  "3 \<le> length (str_split ''a b c d'') \<and>
   calculate_novelty_score NLPAnalyzer_init ''a b c d'' [''a b c d''] 3 = Inr 0"
proof -
  have "length (str_split ''a b c d'') = 4"
    by (simp add: str_split_def maximal_runs_def char_eval)
  then show ?thesis
    using calculate_novelty_score_formula [of NLPAnalyzer_init "''a b c d''" "[]" "''a b c d''"]
    by simp
qed

text \<open>
  C5. \<^verbatim>\<open>analyze_sentiment_basic\<close> takes the set of the whitespace tokens of the
  lower-cased text and counts how many of them are positive words and how many are
  negative words. With both counts zero it returns (neutral, 0.5); otherwise, with
  \<open>s = positive / (positive + negative)\<close>, it returns (positive, \<open>s\<close>) for \<open>s > 0.6\<close>,
  (negative, \<open>1 - s\<close>) for \<open>s < 0.4\<close>, and (neutral, 0.5) in between. The first example
  sentence is positive with a strength above 0.6, the second is exactly (neutral, 0.5).
\<close>

theorem analyze_sentiment_basic_rule:
  "analyze_sentiment_basic self text =
     Inr (sentiment_of_counts
            (card (set (str_split (str_lower text)) \<inter> positive_words))
            (card (set (str_split (str_lower text)) \<inter> negative_words))) \<and>
   (\<exists>s. analyze_sentiment_basic self ''I love this, it is great and wonderful''
          = Inr (''positive'', s) \<and> s > 0.6) \<and>
   analyze_sentiment_basic self
       ''I am not sure why this keeps failing, can someone help me understand the error?''
     = Inr (''neutral'', 0.5)"
  by (simp add: sentiment_value sentiment_love sentiment_unsure sentiment_of_counts_def)


text \<open>
  C8. \<^verbatim>\<open>calculate_complexity_score\<close> returns 0 for the empty text. For any other text
  it returns, capped at 1, the sum of 0.3 times the average word length over 10 (at
  most 1), 0.4 times the number of words per \<^verbatim>\<open>.\<close>-delimited segment over 20 (at
  most 1), and 0.3 times the share of unique words among all words.
\<close>

theorem calculate_complexity_score_formula:
  "calculate_complexity_score self [] = Inr 0 \<and>
   (text \<noteq> [] \<longrightarrow>
      calculate_complexity_score self text =
        Inr (min (0.3 * min (average_word_length text / 10) 1
                  + 0.4 * min (words_per_segment text / 20) 1
                  + 0.3 * vocabulary_richness text) 1))"
  by (simp add: complexity_value mult.commute)

theorem calculate_complexity_score_formula_witness:
  "''a b. c'' \<noteq> [] \<and>
   calculate_complexity_score NLPAnalyzer_init ''a b. c'' =
     Inr (min (0.3 * min (average_word_length ''a b. c'' / 10) 1
               + 0.4 * min (words_per_segment ''a b. c'' / 20) 1
               + 0.3 * vocabulary_richness ''a b. c'') 1)"
  using calculate_complexity_score_formula [of NLPAnalyzer_init "''a b. c''"]
  by simp

text \<open>
  C9. The result of \<^verbatim>\<open>calculate_enhanced_importance\<close>, score and factors, is a function
  of the content, the five weights and the reference list alone: two invocations with
  these arguments equal give the same result, whatever the state of the scorer
  objects they are invoked on.
\<close>

theorem calculate_enhanced_importance_deterministic:
  "calculate_enhanced_importance self1 content lw cw nw sw ew existing =
   calculate_enhanced_importance self2 content lw cw nw sw ew existing"
proof -
  have c: "calculate_complexity_score (nlp self1) content =
      calculate_complexity_score (nlp self2) content"
    by (simp add: complexity_value)
  have n: "calculate_novelty_score (nlp self1) content texts 3 =
      calculate_novelty_score (nlp self2) content texts 3" for texts
    by (rule novelty_self)
  have s: "analyze_sentiment_basic (nlp self1) content =
      analyze_sentiment_basic (nlp self2) content"
    by (simp add: sentiment_value)
  have e: "calculate_entropy (nlp self1) content = calculate_entropy (nlp self2) content"
    by (simp add: entropy_value)
  show ?thesis
    unfolding calculate_enhanced_importance_def c n s e ..
qed

text \<open>
  C10. For a non-empty content the factors returned by
  \<^verbatim>\<open>calculate_enhanced_importance\<close> have exactly the six keys \<^verbatim>\<open>length_factor\<close>,
  \<^verbatim>\<open>complexity_factor\<close>, \<^verbatim>\<open>novelty_factor\<close>, \<^verbatim>\<open>sentiment_factor\<close>,
  \<^verbatim>\<open>entropy_factor\<close> and \<^verbatim>\<open>final_importance\<close>, and the value under
  \<^verbatim>\<open>final_importance\<close> is the importance returned beside them.
\<close>

theorem calculate_enhanced_importance_factors:
  "content \<noteq> [] \<Longrightarrow>
     \<exists>importance factors.
       calculate_enhanced_importance self content lw cw nw sw ew existing
         = Inr (importance, factors) \<and>
       dom factors =
         {''length_factor'', ''complexity_factor'', ''novelty_factor'', ''sentiment_factor'',
          ''entropy_factor'', ''final_importance''} \<and>
       factors ''final_importance'' = Some importance"
proof -
  assume ne: "content \<noteq> []"
  obtain cf where cf: "calculate_complexity_score (nlp self) content = Inr cf"
    using complexity_value by blast
  obtain nf where nf: "(case existing of None \<Rightarrow> Inr 1
          | Some texts \<Rightarrow>
              if texts \<noteq> [] then calculate_novelty_score (nlp self) content texts 3
              else Inr 1) = (Inr nf :: py_error + real)"
    using novelty_factor_total by blast
  obtain label strength where
    se: "analyze_sentiment_basic (nlp self) content = Inr (label, strength)"
    using sentiment_value [of "nlp self" content]
    by (cases "sentiment_of_counts
            (card (set (str_split (str_lower content)) \<inter> positive_words))
            (card (set (str_split (str_lower content)) \<inter> negative_words))") auto
  obtain ent where ent: "calculate_entropy (nlp self) content = Inr ent"
    using entropy_value by blast
  show ?thesis
    unfolding importance_step [OF ne cf nf se ent]
    by (intro exI conjI) (rule refl, rule metrics_dict_dom, rule metrics_dict_final)
qed

theorem calculate_enhanced_importance_factors_witness:
  "''ab'' \<noteq> [] \<and>
   (\<exists>importance factors.
       calculate_enhanced_importance EnhancedThoughtScorer_init ''ab'' 0.2 0.25 0.3 0.15 0.1 None
         = Inr (importance, factors) \<and>
       dom factors =
         {''length_factor'', ''complexity_factor'', ''novelty_factor'', ''sentiment_factor'',
          ''entropy_factor'', ''final_importance''} \<and>
       factors ''final_importance'' = Some importance)"
proof -
  have ne: "''ab'' \<noteq> []" by simp
  show ?thesis
    by (rule conjI [OF ne calculate_enhanced_importance_factors [OF ne]])
qed

text \<open>
  C6. Every extractor and the importance scorer return normally on every text, the
  empty and the whitespace-only ones included: no division is reached with a zero
  divisor and no logarithm with a non-positive argument (\<^verbatim>\<open>extract_keywords\<close> and
  \<^verbatim>\<open>extract_ngrams\<close> contain no operation that can raise). The repetition score,
  the complexity score, the novelty score, the sentiment strength, every keyword
  density and the importance lie in \<open>[0, 1]\<close>, the entropy is not negative, and the
  empty text gives the documented defaults.
\<close>

theorem analyser_total_and_bounded:
  "(\<exists>d. calculate_keyword_density self content = Inr d \<and>
        (\<forall>k v. d k = Some v \<longrightarrow> 0 \<le> v \<and> v \<le> 1)) \<and>
   (\<exists>r. calculate_repetition_score self content = Inr r \<and> 0 \<le> r \<and> r \<le> 1) \<and>
   (\<exists>e. calculate_entropy self content = Inr e \<and> 0 \<le> e) \<and>
   (\<exists>v. calculate_novelty_score self content reference_texts ngram_size = Inr v \<and> 0 \<le> v \<and> v \<le> 1) \<and>
   (\<exists>label s. analyze_sentiment_basic self content = Inr (label, s) \<and> 0 \<le> s \<and> s \<le> 1) \<and>
   (\<exists>c. calculate_complexity_score self content = Inr c \<and> 0 \<le> c \<and> c \<le> 1) \<and>
   (\<exists>i f. calculate_enhanced_importance scorer content lw cw nw sw ew existing = Inr (i, f)
          \<and> 0 \<le> i \<and> i \<le> 1) \<and>
   extract_keywords self [] 3 = [] \<and>
   extract_ngrams self [] 2 = [] \<and>
   calculate_keyword_density self [] = Inr Map.empty \<and>
   calculate_repetition_score self [] = Inr 0 \<and>
   calculate_entropy self [] = Inr 0 \<and>
   calculate_novelty_score self [] [] 3 = Inr 1 \<and>
   analyze_sentiment_basic self [] = Inr (''neutral'', 0.5) \<and>
   calculate_complexity_score self [] = Inr 0 \<and>
   calculate_enhanced_importance scorer [] lw cw nw sw ew existing = Inr (0, Map.empty)"
proof -
  have "\<exists>e. calculate_entropy self content = Inr e \<and> 0 \<le> e"
    by (simp add: entropy_value shannon_entropy_nonneg)
  then show ?thesis
    by (intro conjI keyword_density_range repetition_range novelty_range sentiment_range
        complexity_range importance_range empty_defaults)
qed

theorem analyser_total_and_bounded_witness:
  "(\<exists>d. calculate_keyword_density NLPAnalyzer_init ''  '' = Inr d \<and>
        (\<forall>k v. d k = Some v \<longrightarrow> 0 \<le> v \<and> v \<le> 1)) \<and>
   (\<exists>r. calculate_repetition_score NLPAnalyzer_init ''  '' = Inr r \<and> 0 \<le> r \<and> r \<le> 1) \<and>
   (\<exists>e. calculate_entropy NLPAnalyzer_init ''  '' = Inr e \<and> 0 \<le> e) \<and>
   (\<exists>v. calculate_novelty_score NLPAnalyzer_init ''  '' [''  ''] 3 = Inr v \<and> 0 \<le> v \<and> v \<le> 1) \<and>
   (\<exists>label s. analyze_sentiment_basic NLPAnalyzer_init ''  '' = Inr (label, s) \<and> 0 \<le> s \<and> s \<le> 1) \<and>
   (\<exists>c. calculate_complexity_score NLPAnalyzer_init ''  '' = Inr c \<and> 0 \<le> c \<and> c \<le> 1) \<and>
   (\<exists>i f. calculate_enhanced_importance EnhancedThoughtScorer_init ''  '' 0.2 0.25 0.3 0.15 0.1
             (Some [''  '']) = Inr (i, f) \<and> 0 \<le> i \<and> i \<le> 1)"
proof -
  note t = analyser_total_and_bounded [where self = NLPAnalyzer_init and content = "''  ''"
      and reference_texts = "[''  '']" and ngram_size = 3
      and scorer = EnhancedThoughtScorer_init and lw = "0.2" and cw = "0.25" and nw = "0.3"
      and sw = "0.15" and ew = "0.1" and existing = "Some [''  '']"]
  show ?thesis
    by (intro conjI t [THEN conjunct1] t [THEN conjunct2, THEN conjunct1]
        t [THEN conjunct2, THEN conjunct2, THEN conjunct1]
        t [THEN conjunct2, THEN conjunct2, THEN conjunct2, THEN conjunct1]
        t [THEN conjunct2, THEN conjunct2, THEN conjunct2, THEN conjunct2, THEN conjunct1]
        t [THEN conjunct2, THEN conjunct2, THEN conjunct2, THEN conjunct2, THEN conjunct2,
           THEN conjunct1]
        t [THEN conjunct2, THEN conjunct2, THEN conjunct2, THEN conjunct2, THEN conjunct2,
           THEN conjunct2, THEN conjunct1])
qed





end
